theory Spec2Isabelle
  imports Complex_Main "HOL-Library.Sublist" "HOL-Library.AList"
begin

section \<open>Errors\<close>

text \<open>
  Every \<^verbatim>\<open>raise\<close> of the two modules, and every exception the interpreter or
  numpy raises on the paths modelled here, is a value of one error type. The first
  four constructors are the explicit \<^verbatim>\<open>raise Exception(...)\<close> statements of
  \<^verbatim>\<open>NoteArray.__init__\<close>, in source order; their message strings are replaced by the
  values the messages print.
\<close>

datatype error =
    BothInitializers
  | KeyRangeTooLarge int
  | ResolutionTooLarge real
  | PartialKeyState
  | ZeroDivisionError
  | AttributeError
  | ValueError
  | KeyError string
  | TypeError
  | FileNotFoundError string
  | NoModelMethod
  | UnsupportedOptimizer
  | External string

text \<open>The exceptions that \<^verbatim>\<open>NoteArray.__init__\<close> raises by its own validation.\<close>

fun is_construction_error :: "error \<Rightarrow> bool" where
  "is_construction_error BothInitializers = True"
| "is_construction_error (KeyRangeTooLarge s) = True"
| "is_construction_error (ResolutionTooLarge r) = True"
| "is_construction_error PartialKeyState = True"
| "is_construction_error e = False"

section \<open>Arrays\<close>

text \<open>
  A one-dimensional boolean numpy array is a \<^typ>\<open>bool list\<close>. A two-dimensional one
  is its list of rows together with the column count (the column count of a numpy array
  is defined also when it has no row).
\<close>

record ndarray2 =
  rows :: "bool list list"
  ncols :: nat

definition wf_ndarray2 :: "ndarray2 \<Rightarrow> bool" where
  "wf_ndarray2 a = list_all (\<lambda>r. length r = ncols a) (rows a)"

text \<open>
  A bound of a numpy slice on an axis of length \<open>len\<close>: a negative bound counts from the
  end, and bounds are clipped to the axis.
\<close>

definition slice_bound :: "nat \<Rightarrow> int \<Rightarrow> nat" where
  "slice_bound len i = (if i < 0 then nat (max (i + int len) 0) else min (nat i) len)"

text \<open>\<^verbatim>\<open>a[:, lo:hi]\<close>\<close>

definition slice_columns :: "int \<Rightarrow> int \<Rightarrow> ndarray2 \<Rightarrow> ndarray2" where
  "slice_columns lo hi a =
     (let l = slice_bound (ncols a) lo; h = slice_bound (ncols a) hi
      in \<lparr>rows = map (\<lambda>r. take (h - l) (drop l r)) (rows a), ncols = h - l\<rparr>)"

text \<open>\<^verbatim>\<open>a.flatten()\<close>, row-major.\<close>

definition flatten :: "ndarray2 \<Rightarrow> bool list" where
  "flatten a = concat (rows a)"

text \<open>The first \<open>t\<close> consecutive blocks of \<open>n\<close> elements of a flat array.\<close>

fun chop :: "nat \<Rightarrow> nat \<Rightarrow> 'a list \<Rightarrow> 'a list list" where
  "chop 0 n xs = []"
| "chop (Suc t) n xs = take n xs # chop t n (drop n xs)"

text \<open>
  \<^verbatim>\<open>np.reshape(xs, (t, n))\<close>. A negative entry of the shape is the unknown dimension,
  which numpy infers from the size; two unknown dimensions, or a size that does not fit,
  raise \<^verbatim>\<open>ValueError\<close>.
\<close>

definition reshape :: "bool list \<Rightarrow> int \<Rightarrow> int \<Rightarrow> error + ndarray2" where
  "reshape xs t n =
     (if t < 0 \<and> n < 0 then Inl ValueError
      else if t < 0 then
        (if n = 0 \<or> length xs mod nat n \<noteq> 0 then Inl ValueError
         else Inr \<lparr>rows = chop (length xs div nat n) (nat n) xs, ncols = nat n\<rparr>)
      else if n < 0 then
        (if t = 0 \<or> length xs mod nat t \<noteq> 0 then Inl ValueError
         else Inr \<lparr>rows = chop (nat t) (length xs div nat t) xs, ncols = length xs div nat t\<rparr>)
      else if nat t * nat n \<noteq> length xs then Inl ValueError
      else Inr \<lparr>rows = chop (nat t) (nat n) xs, ncols = nat n\<rparr>)"

text \<open>\<^verbatim>\<open>np.zeros((t, c)).astype('bool')\<close>\<close>

definition zeros :: "int \<Rightarrow> nat \<Rightarrow> error + ndarray2" where
  "zeros t c =
     (if t < 0 then Inl ValueError
      else Inr \<lparr>rows = replicate (nat t) (replicate c False), ncols = c\<rparr>)"

text \<open>
  \<^verbatim>\<open>a[:, lo:hi] = v\<close>: the value is broadcast to the shape of the sliced block (an axis
  of the value must have the length of the block's axis, or length one), and written
  over the block.
\<close>

definition broadcast_axis :: "nat \<Rightarrow> 'a list \<Rightarrow> 'a list" where
  "broadcast_axis k xs = (if length xs = k then xs else replicate k (hd xs))"

text \<open>Columns \<open>l\<close> up to \<open>h\<close> of the row \<open>r\<close> overwritten with \<open>b\<close>.\<close>

definition write_block :: "nat \<Rightarrow> nat \<Rightarrow> 'a list \<Rightarrow> 'a list \<Rightarrow> 'a list" where
  "write_block l h r b =
     (if h \<le> l then r else take l r @ broadcast_axis (h - l) b @ drop h r)"

definition assign_columns :: "ndarray2 \<Rightarrow> int \<Rightarrow> int \<Rightarrow> ndarray2 \<Rightarrow> error + ndarray2" where
  "assign_columns a lo hi v =
     (let l = slice_bound (ncols a) lo; h = slice_bound (ncols a) hi
      in if (length (rows v) = length (rows a) \<or> length (rows v) = 1)
            \<and> (ncols v = h - l \<or> ncols v = 1)
         then Inr (a\<lparr>rows :=
                map (\<lambda>(r, b). write_block l h r b)
                  (zip (rows a) (broadcast_axis (length (rows a)) (rows v)))\<rparr>)
         else Inl ValueError)"

section \<open>Pianoroll\<close>

text \<open>
  Modelled from the spec: the class \<^verbatim>\<open>Pianoroll\<close> of \<^verbatim>\<open>pianonet.core.pianoroll\<close> is
  not among the sources. The spec describes it as the container of a key-state matrix,
  a two-dimensional boolean grid whose rows are time steps and whose columns are the 128
  key indices. Its time-stretch operations (\<^verbatim>\<open>stretch\<close>, \<^verbatim>\<open>get_stretched\<close>) are an
  external collaborator whose resampling policy the spec leaves open; they are parameters
  of the functions below and may fail.
\<close>

record pianoroll =
  array :: ndarray2

type_synonym stretcher = "real \<Rightarrow> pianoroll \<Rightarrow> error + pianoroll"

definition wf_pianoroll :: "pianoroll \<Rightarrow> bool" where
  "wf_pianoroll p = (ncols (array p) = 128 \<and> wf_ndarray2 (array p))"

section \<open>NoteArray\<close>

record note_array =
  min_key_index :: int
  num_keys :: int
  resolution :: real
  time_steps :: int
  flat :: "bool list"

text \<open>
  \<^verbatim>\<open>NoteArray.__init__(pianoroll, flat_array, min_key_index, num_keys, resolution)\<close>.
  An initializer that is not given is \<open>None\<close>; \<open>flat_array\<close> is \<open>Some\<close> exactly when
  the argument is a numpy array, which is what the source tests. The two integers are
  Python integers and may be negative. The resolution is a real number: the source
  compares it with 1.0 and divides by it, and a float that is not a number is outside
  this model. The field \<^verbatim>\<open>self.array\<close> is \<open>flat\<close> here, and
  \<^verbatim>\<open>pianoroll.get_copy()\<close> is the pianoroll itself.
\<close>

definition NoteArray_init ::
  "stretcher \<Rightarrow> pianoroll option \<Rightarrow> bool list option \<Rightarrow> int \<Rightarrow> int \<Rightarrow> real
     \<Rightarrow> error + note_array" where
  "NoteArray_init stretch pianoroll flat_array mki nk res =
     (if pianoroll \<noteq> None \<and> flat_array \<noteq> None then Inl BothInitializers
      else if mki + nk > 128 then Inl (KeyRangeTooLarge (mki + nk))
      else if res > 1 then Inl (ResolutionTooLarge res)
      else case flat_array of
        Some fa \<Rightarrow>
          if nk = 0 then Inl ZeroDivisionError
          else if int (length fa) mod nk \<noteq> 0 then Inl PartialKeyState
          else Inr \<lparr>min_key_index = mki, num_keys = nk, resolution = res,
                    time_steps = int (length fa) div nk, flat = fa\<rparr>
      | None \<Rightarrow>
          (case pianoroll of
             None \<Rightarrow> Inl AttributeError
           | Some p \<Rightarrow>
               (case (if res \<noteq> 1 then stretch res p else Inr p) of
                  Inl e \<Rightarrow> Inl e
                | Inr p' \<Rightarrow>
                    Inr \<lparr>min_key_index = mki, num_keys = nk, resolution = res,
                         time_steps = int (length (rows (array p'))),
                         flat = flatten (slice_columns mki (mki + nk) (array p'))\<rparr>)))"

text \<open>\<^verbatim>\<open>NoteArray.get_pianoroll\<close>\<close>

definition get_pianoroll :: "stretcher \<Rightarrow> note_array \<Rightarrow> error + pianoroll" where
  "get_pianoroll get_stretched na =
     (case reshape (flat na) (time_steps na) (num_keys na) of
        Inl e \<Rightarrow> Inl e
      | Inr cropped \<Rightarrow>
          (case zeros (time_steps na) 128 of
             Inl e \<Rightarrow> Inl e
           | Inr z \<Rightarrow>
               (case assign_columns z (min_key_index na)
                       (min_key_index na + num_keys na) cropped of
                  Inl e \<Rightarrow> Inl e
                | Inr u \<Rightarrow>
                    if resolution na = 1 then Inr \<lparr>array = u\<rparr>
                    else if resolution na = 0 then Inl ZeroDivisionError
                    else get_stretched (1 / resolution na) \<lparr>array = u\<rparr>)))"

text \<open>\<^verbatim>\<open>NoteArray.get_length_in_notes\<close> and \<^verbatim>\<open>NoteArray.get_length_in_timesteps\<close>\<close>

definition get_length_in_notes :: "note_array \<Rightarrow> int" where
  "get_length_in_notes na = int (length (flat na))"

definition get_length_in_timesteps :: "note_array \<Rightarrow> error + int" where
  "get_length_in_timesteps na =
     (if num_keys na = 0 then Inl ZeroDivisionError
      else Inr (get_length_in_notes na div num_keys na))"

text \<open>Encoding a pianoroll and decoding the result again.\<close>

definition decode_encoded ::
  "stretcher \<Rightarrow> stretcher \<Rightarrow> pianoroll \<Rightarrow> int \<Rightarrow> int \<Rightarrow> real \<Rightarrow> error + pianoroll" where
  "decode_encoded stretch get_stretched p mki nk res =
     (case NoteArray_init stretch (Some p) None mki nk res of
        Inl e \<Rightarrow> Inl e
      | Inr na \<Rightarrow> get_pianoroll get_stretched na)"

text \<open>
  A stretch that keeps the rows as they are. It serves as the collaborator at concrete
  inputs of resolution 1.0, where the code never calls it.
\<close>

definition keep_rows :: stretcher where
  "keep_rows f p = Inr p"

text \<open>The row that decoding builds from a block \<open>b\<close> of \<open>n\<close> keys starting at key \<open>m\<close>.\<close>

definition decoded_block :: "nat \<Rightarrow> nat \<Rightarrow> bool list \<Rightarrow> bool list" where
  "decoded_block m n b = replicate m False @ b @ replicate (128 - (m + n)) False"

text \<open>A pianoroll of two time steps, for concrete evaluations.\<close>

definition sample_roll :: pianoroll where
  "sample_roll =
     \<lparr>array = \<lparr>rows = [replicate 60 False @ True # replicate 67 False,
                        replicate 3 True @ replicate 125 False],
               ncols = 128\<rparr>\<rparr>"

section \<open>Python values of the run\<close>

text \<open>A sequential composition that stops at the first exception.\<close>

definition bind :: "error + 'a \<Rightarrow> ('a \<Rightarrow> error + 'b) \<Rightarrow> error + 'b" where
  "bind m f = (case m of Inl e \<Rightarrow> Inl e | Inr x \<Rightarrow> f x)"

text \<open>
  What \<^verbatim>\<open>json.load\<close> returns: a dictionary is an association list in the order of
  its keys.
\<close>

datatype json =
    JNull
  | JBool bool
  | JInt int
  | JFloat real
  | JStr string
  | JArr "json list"
  | JObj "(string \<times> json) list"

text \<open>\<^verbatim>\<open>d[k]\<close>, \<^verbatim>\<open>d[k] = v\<close>, \<^verbatim>\<open>del d[k]\<close> and \<^verbatim>\<open>k in d\<close> for a string key.\<close>

fun getitem :: "json \<Rightarrow> string \<Rightarrow> error + json" where
  "getitem (JObj kvs) k = (case map_of kvs k of None \<Rightarrow> Inl (KeyError k) | Some v \<Rightarrow> Inr v)"
| "getitem j k = Inl TypeError"

fun setitem :: "json \<Rightarrow> string \<Rightarrow> json \<Rightarrow> error + json" where
  "setitem (JObj kvs) k v = Inr (JObj (AList.update k v kvs))"
| "setitem j k v = Inl TypeError"

fun delitem :: "json \<Rightarrow> string \<Rightarrow> error + json" where
  "delitem (JObj kvs) k =
     (case map_of kvs k of None \<Rightarrow> Inl (KeyError k) | Some v \<Rightarrow> Inr (JObj (AList.delete k kvs)))"
| "delitem j k = Inl TypeError"

fun has_key :: "json \<Rightarrow> string \<Rightarrow> bool" where
  "has_key (JObj kvs) k = (map_of kvs k \<noteq> None)"
| "has_key j k = False"

text \<open>
  Reading a configuration value at the type the run uses it at. A string concatenated
  into a log line raises \<^verbatim>\<open>TypeError\<close> when it is no string; for numbers, a value of
  another type is taken to raise \<^verbatim>\<open>TypeError\<close> where it is first used in arithmetic.
\<close>

fun as_str :: "json \<Rightarrow> error + string" where
  "as_str (JStr s) = Inr s"
| "as_str j = Inl TypeError"

fun as_int :: "json \<Rightarrow> error + int" where
  "as_int (JInt n) = Inr n"
| "as_int j = Inl TypeError"

fun as_number :: "json \<Rightarrow> error + real" where
  "as_number (JInt n) = Inr (real_of_int n)"
| "as_number (JFloat x) = Inr x"
| "as_number j = Inl TypeError"

text \<open>\<^verbatim>\<open>str(n)\<close> for an integer.\<close>

definition digit_char :: "nat \<Rightarrow> char" where
  "digit_char d = ''0123456789'' ! d"

function str_nat :: "nat \<Rightarrow> string" where
  "str_nat n = (if n < 10 then [digit_char n] else str_nat (n div 10) @ [digit_char (n mod 10)])"
  by pat_completeness auto
termination
  by (relation "measure id") auto

declare str_nat.simps [simp del]

definition str_int :: "int \<Rightarrow> string" where
  "str_int i = (if i < 0 then CHR ''-'' # str_nat (nat (- i)) else str_nat (nat i))"

text \<open>\<^verbatim>\<open>int(x)\<close> for a float: truncation towards zero (the rounding of the float product
  itself is not modelled).\<close>

definition py_int :: "real \<Rightarrow> int" where
  "py_int x = (if 0 \<le> x then \<lfloor>x\<rfloor> else \<lceil>x\<rceil>)"

text \<open>\<^verbatim>\<open>os.path.join(a, b)\<close> and \<^verbatim>\<open>os.path.basename(p)\<close> of \<^verbatim>\<open>posixpath\<close>.\<close>

definition os_path_join :: "string \<Rightarrow> string \<Rightarrow> string" where
  "os_path_join a b =
     (if b \<noteq> [] \<and> hd b = CHR ''/'' then b
      else if a = [] \<or> last a = CHR ''/'' then a @ b
      else a @ CHR ''/'' # b)"


section \<open>The run directory\<close>

record run_state =
  run_index :: int
  status :: string

text \<open>
  Modelled from the spec: the Keras model, the aggregated corpus
  (\<^verbatim>\<open>MasterNoteArray\<close>) and the sample source (\<^verbatim>\<open>NoteSampleGenerator\<close>) are external
  collaborators that are not among the sources. Of the model the run reads the input
  width (\<^verbatim>\<open>get_model_input_shape\<close>) and compiles it; of the corpus it reads the
  \<^verbatim>\<open>note_array_transformer\<close>; of a sample source it reads the batch count and saves and
  restores the cursor.
\<close>

record model =
  input_shape :: int
  compiled :: bool

record master_note_array =
  note_array_transformer :: note_array

record note_sample_generator =
  total_batches_count :: int
  cursor :: nat

text \<open>
  Modelled from the spec: \<^verbatim>\<open>load_dictionary_from_json_file\<close> and
  \<^verbatim>\<open>save_dictionary_to_json_file\<close> of \<^verbatim>\<open>pianonet.core.misc_tools\<close> are not among the
  sources; they read and write a dictionary at a path. A file is modelled by what it
  holds. The state file holds the persisted run state record
  \<open>{runIndex: int, status: string}\<close>.
\<close>

datatype file_content =
    JsonFile json
  | StateFile run_state
  | ModelFile model
  | GeneratorStateFile nat
  | MasterNoteArrayFile master_note_array
  | PickleFile json

text \<open>The file system: the files by path, and the log of every write in order.\<close>

record world =
  files :: "(string \<times> file_content) list"
  written :: "(string \<times> file_content) list"

definition write_file :: "string \<Rightarrow> file_content \<Rightarrow> world \<Rightarrow> world" where
  "write_file p c w =
     w\<lparr>files := AList.update p c (files w), written := written w @ [(p, c)]\<rparr>"

definition os_remove :: "string \<Rightarrow> world \<Rightarrow> world" where
  "os_remove p w = w\<lparr>files := AList.delete p (files w)\<rparr>"

definition os_path_exists :: "world \<Rightarrow> string \<Rightarrow> bool" where
  "os_path_exists w p = (map_of (files w) p \<noteq> None)"

definition load_dictionary_from_json_file :: "world \<Rightarrow> string \<Rightarrow> error + json" where
  "load_dictionary_from_json_file w p =
     (case map_of (files w) p of
        None \<Rightarrow> Inl (FileNotFoundError p)
      | Some (JsonFile j) \<Rightarrow> Inr j
      | Some c \<Rightarrow> Inl ValueError)"

definition load_model :: "world \<Rightarrow> string \<Rightarrow> error + model" where
  "load_model w p =
     (case map_of (files w) p of
        None \<Rightarrow> Inl (FileNotFoundError p)
      | Some (ModelFile m) \<Rightarrow> Inr m
      | Some c \<Rightarrow> Inl ValueError)"

definition MasterNoteArray :: "world \<Rightarrow> string \<Rightarrow> error + master_note_array" where
  "MasterNoteArray w p =
     (case map_of (files w) p of
        None \<Rightarrow> Inl (FileNotFoundError p)
      | Some (MasterNoteArrayFile m) \<Rightarrow> Inr m
      | Some c \<Rightarrow> Inl ValueError)"

text \<open>\<^verbatim>\<open>NoteSampleGenerator.load_state\<close> and \<^verbatim>\<open>save_state\<close>\<close>

definition generator_load_state ::
  "world \<Rightarrow> string \<Rightarrow> note_sample_generator \<Rightarrow> error + note_sample_generator" where
  "generator_load_state w p g =
     (case map_of (files w) p of
        None \<Rightarrow> Inl (FileNotFoundError p)
      | Some (GeneratorStateFile c) \<Rightarrow> Inr (g\<lparr>cursor := c\<rparr>)
      | Some c \<Rightarrow> Inl ValueError)"

definition generator_save_state :: "note_sample_generator \<Rightarrow> string \<Rightarrow> world \<Rightarrow> world" where
  "generator_save_state g p w = write_file p (GeneratorStateFile (cursor g)) w"

section \<open>Run\<close>

text \<open>
  The attributes of a \<^verbatim>\<open>Run\<close> object. Those that \<^verbatim>\<open>execute\<close> sets are \<open>None\<close>
  until then. The path is the absolute path of the run directory
  (\<^verbatim>\<open>os.path.abspath\<close> has been applied). Logging, and with it the log file
  \<^verbatim>\<open>output.log\<close>, is not modelled, except that an argument of a log call that can
  raise is evaluated where the source evaluates it.
\<close>

record run =
  path :: string
  state :: run_state
  training_master_note_array :: "master_note_array option"
  self_note_array_transformer :: "note_array option"
  self_num_keys :: "int option"
  validation_master_note_array :: "master_note_array option"
  self_model :: "model option"

definition new_run :: "string \<Rightarrow> run_state \<Rightarrow> run" where
  "new_run p st =
     \<lparr>path = p, state = st, training_master_note_array = None,
      self_note_array_transformer = None, self_num_keys = None,
      validation_master_note_array = None, self_model = None\<rparr>"

definition get_state_path :: "string \<Rightarrow> string" where
  "get_state_path p = os_path_join p ''state.json''"

definition get_run_description_path :: "string \<Rightarrow> string" where
  "get_run_description_path p = os_path_join p ''run_description.json''"

definition save_state :: "run \<Rightarrow> world \<Rightarrow> world" where
  "save_state r w = write_file (get_state_path (path r)) (StateFile (state r)) w"

definition load_state :: "world \<Rightarrow> string \<Rightarrow> error + run_state" where
  "load_state w p =
     (case map_of (files w) (get_state_path p) of
        None \<Rightarrow> Inl (FileNotFoundError (get_state_path p))
      | Some (StateFile st) \<Rightarrow> Inr st
      | Some c \<Rightarrow> Inl ValueError)"

definition get_run_index :: "run \<Rightarrow> int" where
  "get_run_index r = run_index (state r)"

definition get_status :: "run \<Rightarrow> string" where
  "get_status r = status (state r)"

definition get_full_path_from_run_file_name :: "run \<Rightarrow> string \<Rightarrow> string" where
  "get_full_path_from_run_file_name r file_name = os_path_join (path r) file_name"

definition get_index_prepended_file_base_name :: "int \<Rightarrow> string \<Rightarrow> string" where
  "get_index_prepended_file_base_name index file_base_name =
     str_int index @ ''_'' @ file_base_name"

definition get_previous_run_index_prefixed_path :: "run \<Rightarrow> string \<Rightarrow> string" where
  "get_previous_run_index_prefixed_path r file_base_name =
     get_full_path_from_run_file_name r
       (get_index_prepended_file_base_name (get_run_index r - 1) file_base_name)"

definition get_run_index_prefixed_path :: "run \<Rightarrow> string \<Rightarrow> string" where
  "get_run_index_prefixed_path r file_base_name =
     get_full_path_from_run_file_name r
       (get_index_prepended_file_base_name (get_run_index r) file_base_name)"

text \<open>
  The part of \<^verbatim>\<open>Run.__init__\<close> that decides between a new run and a resumed one
  (lines 40 to 57): it yields the run and the run description that \<^verbatim>\<open>execute\<close> is
  then called with. The assignment into the nested dictionary and the \<^verbatim>\<open>del\<close> act on
  the model description inside the run description.
\<close>

definition Run_resume_or_start :: "world \<Rightarrow> string \<Rightarrow> error + (run \<times> json)" where
  "Run_resume_or_start w p =
     bind (load_dictionary_from_json_file w (get_run_description_path p)) (\<lambda>run_description.
       if os_path_exists w (get_state_path p) then
         bind (load_state w p) (\<lambda>st.
           let r = new_run p (st\<lparr>run_index := run_index st + 1\<rparr>);
               previous_model_path = get_previous_run_index_prefixed_path r ''trained.model''
           in bind (getitem run_description ''model_description'') (\<lambda>md.
              bind (setitem md ''model_path'' (JStr previous_model_path)) (\<lambda>md1.
              bind (delitem md1 ''model_initializer'') (\<lambda>md2.
              bind (setitem run_description ''model_description'' md2) (\<lambda>rd.
              Inr (r, rd))))))
       else Inr (new_run p \<lparr>run_index = 0, status = ''running''\<rparr>, run_description))"

text \<open>\<^verbatim>\<open>Run.fetch_data\<close>\<close>

definition fetch_data :: "world \<Rightarrow> run \<Rightarrow> json \<Rightarrow> error + run" where
  "fetch_data w r data_description =
     bind (bind (getitem data_description ''training_master_note_array_path'') as_str) (\<lambda>tp.
     bind (MasterNoteArray w tp) (\<lambda>tm.
     bind (bind (getitem data_description ''validation_master_note_array_path'') as_str) (\<lambda>vp.
     bind (MasterNoteArray w vp) (\<lambda>vm.
     Inr (r\<lparr>training_master_note_array := Some tm,
            self_note_array_transformer := Some (note_array_transformer tm),
            self_num_keys := Some (num_keys (note_array_transformer tm)),
            validation_master_note_array := Some vm\<rparr>)))))"

text \<open>
  The collaborators of a run that are no files: the external model construction script
  (\<open>None\<close> when its process exits with a non-zero status; on success it has written
  the model to the output path), the constructor of a sample source, and the Keras
  training loop. Of the loop the run sees the batches it has processed, each with the
  model and the cursor of the training sample source after it, and an exception if the
  loop raises one. \<open>method_runs\<close> tells whether \<^verbatim>\<open>ExecuteEveryNBatchesCallback\<close>
  (not among the sources) calls its method at the end of that batch.
\<close>

record batch =
  model_after :: model
  cursor_after :: nat
  method_runs :: bool

record collaborators =
  model_creator :: "string \<Rightarrow> json \<Rightarrow> model option"
  NoteSampleGenerator :: "master_note_array \<Rightarrow> int \<Rightarrow> int \<Rightarrow> json \<Rightarrow> error + note_sample_generator"
  fit :: "model \<Rightarrow> note_sample_generator \<Rightarrow> json \<Rightarrow> int \<Rightarrow> note_sample_generator \<Rightarrow> int
            \<Rightarrow> json \<Rightarrow> batch list \<times> error option"

text \<open>The end of \<^verbatim>\<open>Run.fetch_model\<close>, once \<^verbatim>\<open>self.model\<close> is set (lines 149 to 157).\<close>

definition report_model :: "run \<Rightarrow> world \<Rightarrow> error + (run \<times> world)" where
  "report_model r w =
     (case self_note_array_transformer r of
        None \<Rightarrow> Inl AttributeError
      | Some t \<Rightarrow> if num_keys t = 0 then Inl ZeroDivisionError else Inr (r, w))"

text \<open>\<^verbatim>\<open>Run.fetch_model\<close>\<close>

definition fetch_model :: "collaborators \<Rightarrow> run \<Rightarrow> json \<Rightarrow> world \<Rightarrow> error + (run \<times> world)" where
  "fetch_model ext r model_description w =
     bind (getitem model_description ''model_path'') (\<lambda>model_path.
       if model_path = JStr [] \<and> has_key model_description ''model_initializer'' then
         bind (getitem model_description ''model_initializer'') (\<lambda>model_initializer.
         bind (bind (getitem model_initializer ''path'') as_str) (\<lambda>creator_path.
         bind (getitem model_initializer ''params'') (\<lambda>params.
           let model_output_path = get_run_index_prefixed_path r ''initial.model'';
               model_parameters_file_path = get_full_path_from_run_file_name r ''model_parameters'';
               w1 = write_file model_parameters_file_path (PickleFile params) w
           in case model_creator ext creator_path params of
                None \<Rightarrow> Inl (External ''CalledProcessError'')
              | Some m \<Rightarrow>
                  let w2 = write_file model_output_path (ModelFile m) w1;
                      w3 = os_remove model_parameters_file_path w2
                  in bind (load_model w3 model_output_path) (\<lambda>m'.
                     report_model (r\<lparr>self_model := Some m'\<rparr>) w3))))
       else if model_path \<noteq> JStr [] then
         bind (as_str model_path) (\<lambda>p.
         bind (load_model w p) (\<lambda>m.
         report_model (r\<lparr>self_model := Some m\<rparr>) w))
       else Inl NoModelMethod)"

text \<open>The method that \<^verbatim>\<open>Run.checkpoint_method_creator\<close> returns.\<close>

definition checkpoint_method :: "run \<Rightarrow> note_sample_generator \<Rightarrow> world \<Rightarrow> error + world" where
  "checkpoint_method r training_note_sample_generator w =
     (let w1 = save_state r w
      in case self_model r of
           None \<Rightarrow> Inl AttributeError
         | Some m \<Rightarrow>
             let w2 = write_file (get_run_index_prefixed_path r ''trained.model'') (ModelFile m) w1;
                 generator_checkpoint_path = get_run_index_prefixed_path r ''generator_state.gs''
             in Inr (generator_save_state training_note_sample_generator
                       generator_checkpoint_path w2))"

text \<open>
  The two callbacks given to \<^verbatim>\<open>fit\<close>, at the end of a batch, in the order of the
  callback list: \<^verbatim>\<open>ModelCheckpoint\<close> with \<^verbatim>\<open>save_freq=1\<close> saves the model under
  \<open>model_save_name\<close>, then \<^verbatim>\<open>ExecuteEveryNBatchesCallback\<close> may call the checkpoint
  method.
\<close>

definition on_batch_end ::
  "string \<Rightarrow> batch \<Rightarrow> run \<times> note_sample_generator \<times> world
     \<Rightarrow> error + (run \<times> note_sample_generator \<times> world)" where
  "on_batch_end model_save_name b s =
     (case s of (r, g, w) \<Rightarrow>
        let r1 = r\<lparr>self_model := Some (model_after b)\<rparr>;
            g1 = g\<lparr>cursor := cursor_after b\<rparr>;
            w1 = write_file model_save_name (ModelFile (model_after b)) w
        in if method_runs b
           then bind (checkpoint_method r1 g1 w1) (\<lambda>w2. Inr (r1, g1, w2))
           else Inr (r1, g1, w1))"

fun run_callbacks ::
  "string \<Rightarrow> batch list \<Rightarrow> run \<times> note_sample_generator \<times> world
     \<Rightarrow> error + (run \<times> note_sample_generator \<times> world)" where
  "run_callbacks model_save_name [] s = Inr s"
| "run_callbacks model_save_name (b # bs) s =
     bind (on_batch_end model_save_name b s) (run_callbacks model_save_name bs)"

text \<open>
  Lines 199 to 229 of \<^verbatim>\<open>Run.execute\<close>: the two sample sources, and the validation
  description that is read between them.
\<close>

definition make_generators ::
  "collaborators \<Rightarrow> run \<Rightarrow> json \<Rightarrow> json \<Rightarrow> world
     \<Rightarrow> error + (json \<times> note_sample_generator \<times> note_sample_generator)" where
  "make_generators ext r run_description training_description w =
     (case (self_num_keys r, self_model r, training_master_note_array r,
            validation_master_note_array r) of
        (Some nk, Some m, Some tm, Some vm) \<Rightarrow>
          bind (getitem training_description ''batch_size'') (\<lambda>training_batch_size.
          bind (bind (getitem training_description ''num_predicted_time_steps_in_sample'') as_int)
            (\<lambda>tn.
          bind (NoteSampleGenerator ext tm (input_shape m) (nk * tn) training_batch_size) (\<lambda>tg.
          bind (getitem run_description ''validation_description'') (\<lambda>validation_description.
          bind (getitem validation_description ''batch_size'') (\<lambda>validation_batch_size.
          bind (bind (getitem validation_description ''num_predicted_time_steps_in_sample'') as_int)
            (\<lambda>vn.
          bind (NoteSampleGenerator ext vm (input_shape m) (nk * vn) validation_batch_size) (\<lambda>vg.
          bind (if get_run_index r \<noteq> 0
                then generator_load_state w
                       (get_previous_run_index_prefixed_path r ''generator_state.gs'') tg
                else Inr tg) (\<lambda>tg1.
          Inr (validation_description, tg1, vg)))))))))
      | other \<Rightarrow> Inl AttributeError)"

text \<open>Lines 231 to 240: the optimizer, and compiling the model on the first run index.\<close>

definition make_optimizer :: "run \<Rightarrow> json \<Rightarrow> error + run" where
  "make_optimizer r training_description =
     bind (getitem training_description ''optimizer_description'') (\<lambda>od.
     bind (getitem od ''type'') (\<lambda>ty.
     bind (if ty = JStr ''Adam''
           then bind (getitem od ''kwargs'')
                  (\<lambda>kw. case kw of JObj kvs \<Rightarrow> Inr kw | other \<Rightarrow> Inl TypeError)
           else bind (as_str ty) (\<lambda>s. Inl UnsupportedOptimizer)) (\<lambda>kw.
     case self_model r of
       None \<Rightarrow> Inl AttributeError
     | Some m \<Rightarrow>
         Inr (if get_run_index r = 0 then r\<lparr>self_model := Some (m\<lparr>compiled := True\<rparr>)\<rparr> else r))))"

text \<open>Lines 242 to 277: the step counts and the training loop with its callbacks.\<close>

definition train ::
  "collaborators \<Rightarrow> run \<Rightarrow> json \<Rightarrow> json \<Rightarrow> note_sample_generator \<Rightarrow> note_sample_generator
     \<Rightarrow> world \<Rightarrow> error + (run \<times> world)" where
  "train ext r training_description validation_description tg vg w =
     (let model_save_name = get_run_index_prefixed_path r ''trained.model''
      in bind (getitem training_description ''fraction_data_each_epoch'') (\<lambda>training_fraction.
         bind (getitem validation_description ''fraction_data_each_epoch'') (\<lambda>validation_fraction.
         bind (getitem training_description ''epochs'') (\<lambda>epochs.
         bind (as_number training_fraction) (\<lambda>tf.
         bind (as_number validation_fraction) (\<lambda>vf.
         bind (getitem training_description ''checkpoint_frequency_in_steps'') (\<lambda>frequency.
         case self_model r of
           None \<Rightarrow> Inl AttributeError
         | Some m \<Rightarrow>
             (let outcome = fit ext m tg epochs
                              (py_int (tf * real_of_int (total_batches_count tg)))
                              vg (py_int (vf * real_of_int (total_batches_count vg))) frequency
              in bind (run_callbacks model_save_name (fst outcome) (r, tg, w)) (\<lambda>s.
                 case snd outcome of
                   None \<Rightarrow> Inr (fst s, snd (snd s))
                 | Some e \<Rightarrow> Inl e)))))))))"

text \<open>\<^verbatim>\<open>Run.execute\<close>\<close>

definition execute :: "collaborators \<Rightarrow> run \<Rightarrow> json \<Rightarrow> world \<Rightarrow> error + (run \<times> world)" where
  "execute ext r run_description w =
     (let w1 = write_file (get_run_index_prefixed_path r ''run_desciption.json'')
                 (JsonFile run_description) w
      in bind (getitem run_description ''data_description'') (\<lambda>dd.
         bind (fetch_data w1 r dd) (\<lambda>r1.
         bind (getitem run_description ''model_description'') (\<lambda>md.
         bind (fetch_model ext r1 md w1) (\<lambda>rw.
         case rw of (r2, w2) \<Rightarrow>
         bind (getitem run_description ''training_description'') (\<lambda>td.
         bind (make_generators ext r2 run_description td w2) (\<lambda>gs.
         case gs of (vd, tg, vg) \<Rightarrow>
         bind (make_optimizer r2 td) (\<lambda>r3.
         train ext r3 td vd tg vg w2))))))))"

text \<open>\<^verbatim>\<open>Run.__init__\<close>: the run object and the file system once \<^verbatim>\<open>execute\<close> has returned.\<close>

definition Run_init :: "collaborators \<Rightarrow> world \<Rightarrow> string \<Rightarrow> error + (run \<times> world)" where
  "Run_init ext w p =
     bind (Run_resume_or_start w p) (\<lambda>rj. case rj of (r, rd) \<Rightarrow> execute ext r rd w)"

section \<open>Observations and a sample run directory\<close>

text \<open>What a claim about a finished call looks at.\<close>

definition status_after :: "error + (run \<times> world) \<Rightarrow> error + string" where
  "status_after res = bind res (\<lambda>rw. Inr (get_status (fst rw)))"

definition persisted_status_after :: "error + (run \<times> world) \<Rightarrow> error + string" where
  "persisted_status_after res =
     bind res (\<lambda>rw. bind (load_state (snd rw) (path (fst rw))) (\<lambda>st. Inr (status st)))"

definition run_index_after :: "error + (run \<times> json) \<Rightarrow> error + int" where
  "run_index_after res = bind res (\<lambda>rj. Inr (get_run_index (fst rj)))"


text \<open>The state records among the writes of a log.\<close>

fun state_records :: "(string \<times> file_content) list \<Rightarrow> run_state list" where
  "state_records [] = []"
| "state_records ((p, StateFile st) # ws) = st # state_records ws"
| "state_records (pc # ws) = state_records ws"

text \<open>
  The writes of a run in the directory \<open>p\<close> with the state record \<open>st\<close>: the file a
  write of \<^verbatim>\<open>Run.execute\<close> goes to, by what is written. The lines that the logger
  appends to \<^verbatim>\<open>output.log\<close> are not among them.
\<close>

fun run_write :: "string \<Rightarrow> run_state \<Rightarrow> string \<times> file_content \<Rightarrow> bool" where
  "run_write p st (f, JsonFile j) =
     (f = os_path_join p (str_int (run_index st) @ ''_run_desciption.json''))"
| "run_write p st (f, StateFile st') = (f = os_path_join p ''state.json'' \<and> st' = st)"
| "run_write p st (f, ModelFile m) =
     (f = os_path_join p (str_int (run_index st) @ ''_initial.model'')
      \<or> f = os_path_join p (str_int (run_index st) @ ''_trained.model''))"
| "run_write p st (f, GeneratorStateFile c) =
     (f = os_path_join p (str_int (run_index st) @ ''_generator_state.gs''))"
| "run_write p st (f, PickleFile j) = (f = os_path_join p ''model_parameters'')"
| "run_write p st (f, MasterNoteArrayFile m) = False"

text \<open>
  The writes between two file systems, and the property that the later one extends the
  log of the earlier one by writes of the run only.
\<close>

definition new_writes :: "world \<Rightarrow> world \<Rightarrow> (string \<times> file_content) list" where
  "new_writes w w' = drop (length (written w)) (written w')"

definition run_writes :: "string \<Rightarrow> run_state \<Rightarrow> world \<Rightarrow> world \<Rightarrow> bool" where
  "run_writes p st w w' =
     (prefix (written w) (written w') \<and> list_all (run_write p st) (new_writes w w'))"


text \<open>
  A run directory \<^verbatim>\<open>/runs/demo\<close> with a run description that builds a new model, the
  corpora it names, and collaborators under which training processes two batches and
  the checkpoint method runs at the second.
\<close>

definition sample_corpus :: master_note_array where
  "sample_corpus =
     \<lparr>note_array_transformer =
        \<lparr>min_key_index = 21, num_keys = 88, resolution = 1, time_steps = 0, flat = []\<rparr>\<rparr>"

definition sample_training_description :: json where
  "sample_training_description =
     JObj [(''batch_size'', JInt 8),
           (''num_predicted_time_steps_in_sample'', JInt 4),
           (''optimizer_description'', JObj [(''type'', JStr ''Adam''), (''kwargs'', JObj [])]),
           (''fraction_data_each_epoch'', JInt 1),
           (''epochs'', JInt 1),
           (''checkpoint_frequency_in_steps'', JInt 2)]"

definition sample_description :: "json \<Rightarrow> json" where
  "sample_description model_description =
     JObj [(''data_description'',
              JObj [(''training_master_note_array_path'', JStr ''/data/training.mna''),
                    (''validation_master_note_array_path'', JStr ''/data/validation.mna'')]),
           (''model_description'', model_description),
           (''training_description'', sample_training_description),
           (''validation_description'',
              JObj [(''batch_size'', JInt 8),
                    (''num_predicted_time_steps_in_sample'', JInt 4),
                    (''fraction_data_each_epoch'', JInt 1)])]"

text \<open>A model description that builds a new model, and one that only names a saved model.\<close>

definition build_new_model :: json where
  "build_new_model =
     JObj [(''model_path'', JStr []),
           (''model_initializer'',
              JObj [(''path'', JStr ''models/build.py''), (''params'', JObj [])])]"

definition saved_model_only :: json where
  "saved_model_only = JObj [(''model_path'', JStr ''/models/start.model'')]"

definition sample_model :: model where
  "sample_model = \<lparr>input_shape = 880, compiled = False\<rparr>"

definition sample_files :: "json \<Rightarrow> (string \<times> file_content) list" where
  "sample_files model_description =
     [(''/runs/demo/run_description.json'', JsonFile (sample_description model_description)),
      (''/data/training.mna'', MasterNoteArrayFile sample_corpus),
      (''/data/validation.mna'', MasterNoteArrayFile sample_corpus),
      (''/models/start.model'', ModelFile sample_model)]"

text \<open>The directory before its first run, and with the state record of run index \<open>n\<close>.\<close>

definition fresh_directory :: "json \<Rightarrow> world" where
  "fresh_directory model_description = \<lparr>files = sample_files model_description, written = []\<rparr>"

definition interrupted_directory :: "json \<Rightarrow> int \<Rightarrow> world" where
  "interrupted_directory model_description n =
     \<lparr>files = (''/runs/demo/state.json'', StateFile \<lparr>run_index = n, status = ''running''\<rparr>)
               # sample_files model_description,
      written = []\<rparr>"

definition sample_model_creator :: "string \<Rightarrow> json \<Rightarrow> model option" where
  "sample_model_creator script params = Some sample_model"

definition sample_source :: note_sample_generator where
  "sample_source = \<lparr>total_batches_count = 2, cursor = 0\<rparr>"

definition sample_generator ::
  "master_note_array \<Rightarrow> int \<Rightarrow> int \<Rightarrow> json \<Rightarrow> error + note_sample_generator" where
  "sample_generator corpus n k batch_size = Inr sample_source"

definition sample_fit ::
  "model \<Rightarrow> note_sample_generator \<Rightarrow> json \<Rightarrow> int \<Rightarrow> note_sample_generator \<Rightarrow> int \<Rightarrow> json
     \<Rightarrow> batch list \<times> error option" where
  "sample_fit m tg epochs steps vg validation_steps frequency =
     ([\<lparr>model_after = m, cursor_after = 1, method_runs = False\<rparr>,
       \<lparr>model_after = m, cursor_after = 2, method_runs = True\<rparr>], None)"

definition sample_collaborators :: collaborators where
  "sample_collaborators =
     \<lparr>model_creator = sample_model_creator, NoteSampleGenerator = sample_generator,
      fit = sample_fit\<rparr>"

text \<open>The run object of run index 0 before \<^verbatim>\<open>execute\<close>, and once it holds a model.\<close>

definition sample_start :: run where
  "sample_start = new_run ''/runs/demo'' \<lparr>run_index = 0, status = ''running''\<rparr>"


section \<open>NoteArray: encoding and decoding\<close>

lemma chop_concat:
  "list_all (\<lambda>r. length r = n) rs \<Longrightarrow> chop (length rs) n (concat rs) = rs"
  by (induction rs) auto

lemma length_concat_uniform:
  "list_all (\<lambda>r. length r = n) rs \<Longrightarrow> length (concat rs) = length rs * n"
  by (induction rs) auto

lemma slice_bound_nonneg: "0 \<le> i \<Longrightarrow> i \<le> int len \<Longrightarrow> slice_bound len i = nat i"
  by (simp add: slice_bound_def)

lemma slice_rows_uniform:
  assumes "list_all (\<lambda>r. length r = c) rs" "l + w \<le> c"
  shows "list_all (\<lambda>r. length r = w) (map (\<lambda>r. take w (drop l r)) rs)"
  using assms by (induction rs) auto

lemma encode_ok:
  assumes "wf_pianoroll p" "0 \<le> mki" "0 \<le> nk" "mki + nk \<le> 128"
  shows "NoteArray_init stretch (Some p) None mki nk 1 =
     Inr \<lparr>min_key_index = mki, num_keys = nk, resolution = 1,
          time_steps = int (length (rows (array p))),
          flat = concat (map (\<lambda>r. take (nat nk) (drop (nat mki) r)) (rows (array p)))\<rparr>"
  using assms
  by (simp add: NoteArray_init_def wf_pianoroll_def flatten_def slice_columns_def
      slice_bound_nonneg Let_def nat_add_distrib)

lemma reshape_ok:
  assumes "list_all (\<lambda>r. length r = n) rs"
  shows "reshape (concat rs) (int (length rs)) (int n) = Inr \<lparr>rows = rs, ncols = n\<rparr>"
  using assms by (simp add: reshape_def chop_concat length_concat_uniform)

lemma decoded_block_nth:
  assumes "length b = n" "m + n \<le> 128" "k < 128"
  shows "decoded_block m n b ! k = (if m \<le> k \<and> k < m + n then b ! (k - m) else False)"
proof -
  consider "k < m" | "m \<le> k" "k < m + n" | "m + n \<le> k" by linarith
  then show ?thesis
  proof cases
    case 1
    then show ?thesis by (simp add: decoded_block_def nth_append)
  next
    case 2
    then have "k - m < n" by linarith
    with 2 assms(1) show ?thesis by (simp add: decoded_block_def nth_append)
  next
    case 3
    with assms have "k - m - n < 128 - (m + n)" "\<not> k - m < n" by linarith+
    with 3 assms(1) show ?thesis by (simp add: decoded_block_def nth_append)
  qed
qed

lemma write_block_blank:
  assumes "length b = w" "l + w \<le> 128"
  shows "write_block l (l + w) (replicate 128 False) b = decoded_block l w b"
proof (cases "w = 0")
  case True
  with assms have "b = []" by simp
  moreover have "replicate 128 False = replicate l False @ replicate (128 - l) False"
    using assms by (simp add: replicate_add [symmetric])
  ultimately show ?thesis using True by (simp add: write_block_def decoded_block_def)
next
  case False
  with assms show ?thesis
    by (simp add: write_block_def decoded_block_def broadcast_axis_def min_def)
qed

lemma overwrite_rows:
  assumes "list_all (\<lambda>r. length r = w) bs" "l + w \<le> 128"
  shows "map (\<lambda>(r, b). write_block l (l + w) r b)
          (zip (replicate (length bs) (replicate 128 False)) bs)
        = map (decoded_block l w) bs"
  using assms(1)
proof (induction bs)
  case Nil
  show ?case by simp
next
  case (Cons b bs)
  then have b: "length b = w" by simp
  from write_block_blank [OF b assms(2)] Cons show ?case by simp
qed

lemma assign_ok:
  assumes "list_all (\<lambda>r. length r = nat nk) bs" "0 \<le> mki" "0 \<le> nk" "mki + nk \<le> 128"
  shows "assign_columns \<lparr>rows = replicate (length bs) (replicate 128 False), ncols = 128\<rparr>
           mki (mki + nk) \<lparr>rows = bs, ncols = nat nk\<rparr>
        = Inr \<lparr>rows = map (decoded_block (nat mki) (nat nk)) bs, ncols = 128\<rparr>"
proof -
  have l: "slice_bound 128 mki = nat mki" and h: "slice_bound 128 (mki + nk) = nat mki + nat nk"
    using assms by (simp_all add: slice_bound_nonneg nat_add_distrib)
  have le: "nat mki + nat nk \<le> 128" using assms by linarith
  show ?thesis
    by (simp add: assign_columns_def l h Let_def broadcast_axis_def
        overwrite_rows [OF assms(1) le])
qed

lemma wf_sample_roll: "wf_pianoroll sample_roll"
  by (simp add: sample_roll_def wf_pianoroll_def wf_ndarray2_def)

text \<open>
  C1 (amended). For every pianoroll of 128 columns, every \<open>min_key_index \<ge> 0\<close> and
  \<open>num_keys \<ge> 0\<close> with \<open>min_key_index + num_keys \<le> 128\<close>, and resolution 1.0:
  constructing the NoteArray succeeds, \<^verbatim>\<open>get_pianoroll\<close> on it succeeds, and the decoded
  matrix has the time steps of the original and 128 columns, equals the original at every
  column in \<open>[min_key_index, min_key_index + num_keys)\<close> and is false at every other
  column.
\<close>

theorem decoded_in_range:
  assumes "wf_pianoroll p" "0 \<le> mki" "0 \<le> nk" "mki + nk \<le> 128"
  shows "\<exists>q. decode_encoded stretch get_stretched p mki nk 1 = Inr q
           \<and> ncols (array q) = 128
           \<and> length (rows (array q)) = length (rows (array p))
           \<and> (\<forall>t < length (rows (array p)). \<forall>k < 128.
                 rows (array q) ! t ! k =
                   (if mki \<le> int k \<and> int k < mki + nk then rows (array p) ! t ! k else False))"
proof -
  let ?rs = "rows (array p)"
  let ?bs = "map (\<lambda>r. take (nat nk) (drop (nat mki) r)) ?rs"
  let ?q = "\<lparr>array = \<lparr>rows = map (decoded_block (nat mki) (nat nk)) ?bs, ncols = 128\<rparr>\<rparr>"
  have le: "nat mki + nat nk \<le> 128" using assms by linarith
  have full: "list_all (\<lambda>r. length r = 128) ?rs"
    using assms(1) by (auto simp: wf_pianoroll_def wf_ndarray2_def)
  from slice_rows_uniform [OF full le]
  have uni: "list_all (\<lambda>r. length r = nat nk) ?bs" .
  have "reshape (concat ?bs) (int (length ?rs)) nk = Inr \<lparr>rows = ?bs, ncols = nat nk\<rparr>"
    using reshape_ok [OF uni] assms(3) by simp
  moreover have "zeros (int (length ?rs)) 128 =
      Inr \<lparr>rows = replicate (length ?bs) (replicate 128 False), ncols = 128\<rparr>"
    by (simp add: zeros_def)
  moreover note assign_ok [OF uni assms(2,3,4)] encode_ok [OF assms, of stretch]
  ultimately have run: "decode_encoded stretch get_stretched p mki nk 1 = Inr ?q"
    by (simp add: decode_encoded_def get_pianoroll_def)
  have cell: "rows (array ?q) ! t ! k =
      (if mki \<le> int k \<and> int k < mki + nk then ?rs ! t ! k else False)"
    if t: "t < length ?rs" and k: "k < 128" for t k
  proof -
    have len: "length (?rs ! t) = 128"
      using full t by (simp add: list_all_length)
    have eq: "(nat mki \<le> k \<and> k < nat mki + nat nk) = (mki \<le> int k \<and> int k < mki + nk)"
      using assms(2,3) by linarith
    have "rows (array ?q) ! t ! k =
        decoded_block (nat mki) (nat nk) (take (nat nk) (drop (nat mki) (?rs ! t))) ! k"
      using t by simp
    also have "\<dots> = (if nat mki \<le> k \<and> k < nat mki + nat nk then ?rs ! t ! k else False)"
      using len le k by (auto simp: decoded_block_nth)
    also have "\<dots> = (if mki \<le> int k \<and> int k < mki + nk then ?rs ! t ! k else False)"
      by (simp only: eq)
    finally show ?thesis .
  qed
  show ?thesis
    by (rule exI [of _ ?q]) (use run cell in simp)
qed

text \<open>The theorem at the sample pianoroll, for the 88 keys from key 21.\<close>

theorem decoded_in_range_witness:
  "wf_pianoroll sample_roll \<and> (0::int) \<le> 21 \<and> (0::int) \<le> 88 \<and> (21::int) + 88 \<le> 128 \<and>
   (\<exists>q. decode_encoded keep_rows keep_rows sample_roll 21 88 1 = Inr q
      \<and> rows (array q) ! 0 ! 60 = True \<and> rows (array q) ! 1 ! 2 = False)"
proof -
  from decoded_in_range [OF wf_sample_roll, of 21 88 keep_rows keep_rows]
  obtain q where q: "decode_encoded keep_rows keep_rows sample_roll 21 88 1 = Inr q"
    and cells: "\<forall>t < length (rows (array sample_roll)). \<forall>k < 128.
                 rows (array q) ! t ! k =
                   (if 21 \<le> int k \<and> int k < 21 + 88 then rows (array sample_roll) ! t ! k else False)"
    by auto
  from cells have "rows (array q) ! 0 ! 60 = rows (array sample_roll) ! 0 ! 60"
    by (simp add: sample_roll_def)
  moreover from cells have "rows (array q) ! 1 ! 2 = False"
    by (simp add: sample_roll_def)
  ultimately show ?thesis using q wf_sample_roll by (simp add: sample_roll_def nth_append)
qed

text \<open>
  Without the lower bounds the claim fails: for \<open>min_key_index = -8\<close> and
  \<open>num_keys = 8\<close> the sum is within 128, numpy reads the slice \<^verbatim>\<open>[-8:0]\<close> as the
  empty range of columns from 120 up to 0, the buffer is empty, and decoding raises on
  the reshape to two rows of eight keys.
\<close>

theorem negative_index_decode_fails:
  "decode_encoded keep_rows keep_rows sample_roll (- 8) 8 1 = Inl ValueError"
  by (simp add: decode_encoded_def NoteArray_init_def get_pianoroll_def sample_roll_def
      flatten_def slice_columns_def slice_bound_def reshape_def)

section \<open>NoteArray: construction errors\<close>

text \<open>The one bound on the resolution that the constructor checks.\<close>

lemma resolution_upper_bound:
  "NoteArray_init stretch p fa mki nk res = Inr na \<Longrightarrow> resolution na = res \<and> res \<le> 1"
  by (auto simp: NoteArray_init_def split: if_splits option.splits sum.splits)

text \<open>
  C5. The claim says that construction fails for every resolution outside \<open>(0, 1]\<close>.
  The constructor checks only the upper bound: at resolution 0.0 (and likewise below 0)
  it returns a NoteArray that holds this resolution.
\<close>

theorem nonpositive_resolution_accepted:
  "NoteArray_init keep_rows None (Some [False, True]) 0 2 0 =
     Inr \<lparr>min_key_index = 0, num_keys = 2, resolution = 0, time_steps = 1, flat = [False, True]\<rparr>"
  by (simp add: NoteArray_init_def)




text \<open>
  C8 (amended). For a pre-flattened buffer and \<open>num_keys \<noteq> 0\<close>: if the length of the
  buffer is not a multiple of \<open>num_keys\<close>, construction fails with a construction
  error, whatever the other arguments; if it is one, no pianoroll is given,
  \<open>min_key_index + num_keys \<le> 128\<close> and the resolution is at most 1.0, construction
  succeeds with \<open>time_steps = length div num_keys\<close> and the buffer as given.
\<close>

theorem flat_buffer_construction:
  assumes "nk \<noteq> 0"
  shows "(\<not> nk dvd int (length fa) \<longrightarrow>
            (\<exists>e. NoteArray_init stretch p (Some fa) mki nk res = Inl e \<and> is_construction_error e))
         \<and> (nk dvd int (length fa) \<and> mki + nk \<le> 128 \<and> res \<le> 1 \<longrightarrow>
              NoteArray_init stretch None (Some fa) mki nk res =
                Inr \<lparr>min_key_index = mki, num_keys = nk, resolution = res,
                     time_steps = int (length fa) div nk, flat = fa\<rparr>)"
  using assms by (auto simp: NoteArray_init_def dvd_eq_mod_eq_0)

text \<open>The theorem at buffers of length 176 and 100 with 88 keys.\<close>

theorem flat_buffer_construction_witness:
  "(88::int) \<noteq> 0
   \<and> NoteArray_init keep_rows None (Some (replicate 176 False)) 21 88 1 =
       Inr \<lparr>min_key_index = 21, num_keys = 88, resolution = 1, time_steps = 2,
            flat = replicate 176 False\<rparr>
   \<and> (\<exists>e. NoteArray_init keep_rows None (Some (replicate 100 False)) 21 88 1 = Inl e
          \<and> is_construction_error e)"
proof -
  have nz: "(88::int) \<noteq> 0" by simp
  from flat_buffer_construction [OF nz, of "replicate 176 False" keep_rows None 21 1]
  have 1: "NoteArray_init keep_rows None (Some (replicate 176 False)) 21 88 1 =
       Inr \<lparr>min_key_index = 21, num_keys = 88, resolution = 1, time_steps = 2,
            flat = replicate 176 False\<rparr>"
    by simp
  from flat_buffer_construction [OF nz, of "replicate 100 False" keep_rows None 21 1]
  have 2: "\<exists>e. NoteArray_init keep_rows None (Some (replicate 100 False)) 21 88 1 = Inl e
          \<and> is_construction_error e"
    by simp
  from nz 1 2 show ?thesis by (intro conjI)
qed

text \<open>
  As stated the claim fails: with \<open>num_keys = 0\<close> the empty buffer, whose length is a
  multiple of 0, raises \<^verbatim>\<open>ZeroDivisionError\<close> at the modulo; and a buffer of length 176
  with 88 keys and a valid key range is rejected when the resolution is 2.0.
\<close>

theorem flat_buffer_zero_keys:
  "NoteArray_init keep_rows None (Some []) 0 0 1 = Inl ZeroDivisionError
   \<and> NoteArray_init keep_rows None (Some (replicate 176 False)) 0 88 2 = Inl (ResolutionTooLarge 2)"
  by (simp add: NoteArray_init_def)

text \<open>
  C9. A constructor call that supplies both a source matrix and a pre-flattened buffer
  fails with the construction error of the first check, whatever the other arguments.
\<close>

theorem both_initializers_fail:
  "NoteArray_init stretch (Some p) (Some fa) mki nk res = Inl BothInitializers"
  by (simp add: NoteArray_init_def)

text \<open>
  C10. A constructor call that supplies neither a source matrix nor a pre-flattened
  buffer never returns a NoteArray: it fails in one of the two parameter checks or, past
  them, when the absent pianoroll is asked for its copy.
\<close>

theorem no_initializer_fails:
  "NoteArray_init stretch None None mki nk res =
     Inl (if mki + nk > 128 then KeyRangeTooLarge (mki + nk)
          else if res > 1 then ResolutionTooLarge res
          else AttributeError)"
  by (simp add: NoteArray_init_def)

section \<open>Strings and paths\<close>

lemma bind_simps [simp]: "bind (Inl e) f = Inl e" "bind (Inr x) f = f x"
  by (simp_all add: bind_def)

lemma bind_eq_Inr: "bind m f = Inr y \<longleftrightarrow> (\<exists>x. m = Inr x \<and> f x = Inr y)"
  by (cases m) simp_all









section \<open>Run: new and resumed runs\<close>

lemma fresh_start:
  assumes "map_of (files w) (get_run_description_path p) = Some (JsonFile rd)"
    and "map_of (files w) (get_state_path p) = None"
  shows "Run_resume_or_start w p = Inr (new_run p \<lparr>run_index = 0, status = ''running''\<rparr>, rd)"
  using assms
  by (simp add: Run_resume_or_start_def load_dictionary_from_json_file_def os_path_exists_def)

lemma resume_transition:
  assumes "map_of (files w) (get_run_description_path p) = Some (JsonFile (JObj rd))"
    and "map_of (files w) (get_state_path p) = Some (StateFile \<lparr>run_index = n, status = s\<rparr>)"
    and "map_of rd ''model_description'' = Some (JObj md)"
    and "map_of md ''model_initializer'' = Some mi"
  shows "Run_resume_or_start w p =
     Inr (new_run p \<lparr>run_index = n + 1, status = s\<rparr>,
          JObj (AList.update ''model_description''
                  (JObj (AList.delete ''model_initializer''
                           (AList.update ''model_path''
                              (JStr (os_path_join p (str_int n @ ''_trained.model''))) md)))
                  rd))"
  using assms
  by (simp add: Run_resume_or_start_def load_dictionary_from_json_file_def os_path_exists_def
      load_state_def Let_def new_run_def get_previous_run_index_prefixed_path_def
      get_full_path_from_run_file_name_def get_index_prepended_file_base_name_def
      get_run_index_def update_conv')

lemma rewritten_model_description:
  "getitem (JObj (AList.update ''model_description'' v rd)) ''model_description'' = Inr v"
  "getitem (JObj (AList.delete ''model_initializer'' (AList.update ''model_path'' v md)))
     ''model_path'' = Inr v"
  "\<not> has_key (JObj (AList.delete ''model_initializer'' md)) ''model_initializer''"
  by (simp_all add: update_conv' delete_conv')

lemma resume_without_initializer:
  assumes "map_of (files w) (get_run_description_path p) = Some (JsonFile (JObj rd))"
    and "map_of (files w) (get_state_path p) = Some (StateFile st)"
    and "map_of rd ''model_description'' = Some (JObj md)"
    and "map_of md ''model_initializer'' = None"
  shows "Run_resume_or_start w p = Inl (KeyError ''model_initializer'')"
  using assms
  by (simp add: Run_resume_or_start_def load_dictionary_from_json_file_def os_path_exists_def
      load_state_def Let_def update_conv')

text \<open>
  C2. The claim says that constructing on a directory with the state record
  \<open>{runIndex: n, status: running}\<close> always yields run index \<open>n + 1\<close>. The lemmas
  \<open>fresh_start\<close> and \<open>resume_transition\<close> above are the claim for a directory
  without state record and for a run description whose model description holds a
  \<^verbatim>\<open>model_initializer\<close>. For a run description that
  only names a saved model, which \<^verbatim>\<open>fetch_model\<close> accepts, the \<^verbatim>\<open>del\<close> raises
  \<^verbatim>\<open>KeyError\<close> and no run is constructed.
\<close>

theorem resume_without_directive_fails:
  "Run_resume_or_start (interrupted_directory saved_model_only 2) ''/runs/demo''
     = Inl (KeyError ''model_initializer'')"
  by code_simp

text \<open>
  C7. The claim says that the resume transition succeeds whether or not the model
  description holds a \<^verbatim>\<open>model_initializer\<close>. A run description without one starts a
  first run that trains to the end; constructing the run on the same directory once it
  holds the state record of run index 0 raises \<^verbatim>\<open>KeyError\<close> at the \<^verbatim>\<open>del\<close>.
\<close>

theorem discard_of_absent_directive_raises:
  "status_after (Run_init sample_collaborators (fresh_directory saved_model_only) ''/runs/demo'')
     = Inr ''running''
   \<and> Run_init sample_collaborators (interrupted_directory saved_model_only 0) ''/runs/demo''
     = Inl (KeyError ''model_initializer'')"
  by code_simp

section \<open>Run: what execute writes\<close>

lemma written_write_file [simp]: "written (write_file f c w) = written w @ [(f, c)]"
  by (simp add: write_file_def)

lemma written_os_remove [simp]: "written (os_remove f w) = written w"
  by (simp add: os_remove_def)


lemma run_writes_refl: "run_writes p st w w"
  by (simp add: run_writes_def new_writes_def)

lemma run_writes_iff:
  "run_writes p st w w' \<longleftrightarrow> (\<exists>ws. written w' = written w @ ws \<and> list_all (run_write p st) ws)"
  by (auto simp: run_writes_def new_writes_def prefix_def)

lemma run_writes_trans:
  "run_writes p st w w1 \<Longrightarrow> run_writes p st w1 w2 \<Longrightarrow> run_writes p st w w2"
  by (auto simp: run_writes_iff)

lemma run_writes_write:
  "run_write p st (f, c) \<Longrightarrow> run_writes p st w (write_file f c w)"
  by (simp add: run_writes_iff)

lemma run_writes_remove: "run_writes p st w (os_remove f w)"
  by (simp add: run_writes_iff)

lemmas prefixed_path_defs =
  get_run_index_prefixed_path_def get_full_path_from_run_file_name_def
  get_index_prepended_file_base_name_def get_run_index_def get_state_path_def

lemma prefixed_path_cong:
  "path r' = path r \<Longrightarrow> state r' = state r \<Longrightarrow>
   get_run_index_prefixed_path r' b = get_run_index_prefixed_path r b"
  by (simp add: prefixed_path_defs)

lemma fetch_data_run:
  "fetch_data w r dd = Inr r' \<Longrightarrow> path r' = path r \<and> state r' = state r"
  by (auto simp: fetch_data_def bind_eq_Inr)

lemma report_model_run: "report_model r w = Inr (r', w') \<Longrightarrow> r' = r \<and> w' = w"
  by (auto simp: report_model_def split: option.splits if_splits)

lemma fetch_model_run:
  assumes "fetch_model ext r md w = Inr (r', w')"
  shows "path r' = path r \<and> state r' = state r \<and> run_writes (path r) (state r) w w'"
proof -
  from assms obtain mp where mp: "getitem md ''model_path'' = Inr mp"
    by (auto simp: fetch_model_def bind_eq_Inr)
  show ?thesis
  proof (cases "mp = JStr [] \<and> has_key md ''model_initializer''")
    case True
    with assms mp obtain mi cp params m m' where
      "model_creator ext cp params = Some m"
      and rep: "report_model (r\<lparr>self_model := Some m'\<rparr>)
             (os_remove (get_full_path_from_run_file_name r ''model_parameters'')
               (write_file (get_run_index_prefixed_path r ''initial.model'') (ModelFile m)
                 (write_file (get_full_path_from_run_file_name r ''model_parameters'')
                    (PickleFile params) w))) = Inr (r', w')"
      by (auto simp: fetch_model_def bind_eq_Inr Let_def split: option.splits)
    from report_model_run [OF rep] show ?thesis
      by (simp add: run_writes_iff prefixed_path_defs)
  next
    case False
    with assms mp obtain p m where "report_model (r\<lparr>self_model := Some m\<rparr>) w = Inr (r', w')"
      by (auto simp: fetch_model_def bind_eq_Inr split: if_splits)
    from report_model_run [OF this] show ?thesis
      by (simp add: run_writes_refl)
  qed
qed

lemma checkpoint_method_writes:
  assumes "checkpoint_method r g w = Inr w'"
  shows "\<exists>m. self_model r = Some m \<and> written w' = written w @
           [(get_state_path (path r), StateFile (state r)),
            (get_run_index_prefixed_path r ''trained.model'', ModelFile m),
            (get_run_index_prefixed_path r ''generator_state.gs'', GeneratorStateFile (cursor g))]"
  using assms
  by (auto simp: checkpoint_method_def Let_def save_state_def generator_save_state_def
      split: option.splits)

lemma checkpoint_method_run:
  assumes "checkpoint_method r g w = Inr w'"
  shows "run_writes (path r) (state r) w w'"
proof -
  from checkpoint_method_writes [OF assms] obtain m where
    w': "written w' = written w @
           [(get_state_path (path r), StateFile (state r)),
            (get_run_index_prefixed_path r ''trained.model'', ModelFile m),
            (get_run_index_prefixed_path r ''generator_state.gs'', GeneratorStateFile (cursor g))]"
    by blast
  have "list_all (run_write (path r) (state r))
           [(get_state_path (path r), StateFile (state r)),
            (get_run_index_prefixed_path r ''trained.model'', ModelFile m),
            (get_run_index_prefixed_path r ''generator_state.gs'', GeneratorStateFile (cursor g))]"
    by (simp add: prefixed_path_defs)
  with w' show ?thesis unfolding run_writes_iff by blast
qed

lemma on_batch_end_unfold:
  "on_batch_end n b (r, g, w) =
     (if method_runs b
      then bind (checkpoint_method (r\<lparr>self_model := Some (model_after b)\<rparr>) (g\<lparr>cursor := cursor_after b\<rparr>)
                  (write_file n (ModelFile (model_after b)) w))
             (\<lambda>w2. Inr (r\<lparr>self_model := Some (model_after b)\<rparr>, g\<lparr>cursor := cursor_after b\<rparr>, w2))
      else Inr (r\<lparr>self_model := Some (model_after b)\<rparr>, g\<lparr>cursor := cursor_after b\<rparr>,
                write_file n (ModelFile (model_after b)) w))"
  by (simp add: on_batch_end_def Let_def)

lemma on_batch_end_Inr:
  assumes "on_batch_end n b (r, g, w) = Inr (r', g', w')"
  shows "r' = r\<lparr>self_model := Some (model_after b)\<rparr> \<and>
         (if method_runs b
          then checkpoint_method (r\<lparr>self_model := Some (model_after b)\<rparr>)
                 (g\<lparr>cursor := cursor_after b\<rparr>) (write_file n (ModelFile (model_after b)) w) = Inr w'
          else w' = write_file n (ModelFile (model_after b)) w)"
  using assms by (auto simp: on_batch_end_unfold bind_eq_Inr split: if_splits)

lemma on_batch_end_run:
  assumes "on_batch_end (get_run_index_prefixed_path r ''trained.model'') b (r, g, w) = Inr (r', g', w')"
  shows "path r' = path r \<and> state r' = state r \<and> run_writes (path r) (state r) w w'"
proof -
  let ?r1 = "r\<lparr>self_model := Some (model_after b)\<rparr>"
  let ?w1 = "write_file (get_run_index_prefixed_path r ''trained.model'') (ModelFile (model_after b)) w"
  note step = on_batch_end_Inr [OF assms]
  have w1: "run_writes (path r) (state r) w ?w1"
    by (rule run_writes_write) (simp add: prefixed_path_defs)
  from step have r': "path r' = path r" "state r' = state r" by simp_all
  have "run_writes (path r) (state r) w w'"
  proof (cases "method_runs b")
    case True
    with step have c: "checkpoint_method ?r1 (g\<lparr>cursor := cursor_after b\<rparr>) ?w1 = Inr w'"
      by simp
    from checkpoint_method_run [OF c] have "run_writes (path r) (state r) ?w1 w'" by simp
    from run_writes_trans [OF w1 this] show ?thesis .
  next
    case False
    with step have "w' = ?w1" by simp
    with w1 show ?thesis by simp
  qed
  with r' show ?thesis by simp
qed

lemma run_callbacks_Cons:
  assumes "run_callbacks n (b # bs) s = Inr s'"
  shows "\<exists>s1. on_batch_end n b s = Inr s1 \<and> run_callbacks n bs s1 = Inr s'"
  using assms by (simp add: bind_eq_Inr)

lemma run_callbacks_run_aux:
  assumes "run_callbacks n bs s = Inr s'"
    and "n = get_run_index_prefixed_path (fst s) ''trained.model''"
  shows "path (fst s') = path (fst s) \<and> state (fst s') = state (fst s)
           \<and> run_writes (path (fst s)) (state (fst s)) (snd (snd s)) (snd (snd s'))"
  using assms
proof (induction bs arbitrary: s)
  case Nil
  then show ?case by (simp add: run_writes_refl)
next
  case (Cons b bs)
  from run_callbacks_Cons [OF Cons.prems(1)] obtain s1 where
    step: "on_batch_end n b s = Inr s1" and rest: "run_callbacks n bs s1 = Inr s'"
    by blast
  obtain r g w where s: "s = (r, g, w)" by (cases s)
  obtain r1 g1 w1 where s1: "s1 = (r1, g1, w1)" by (cases s1)
  from step s s1 Cons.prems(2)
  have "on_batch_end (get_run_index_prefixed_path r ''trained.model'') b (r, g, w) = Inr (r1, g1, w1)"
    by simp
  from on_batch_end_run [OF this]
  have 1: "path r1 = path r" "state r1 = state r" "run_writes (path r) (state r) w w1"
    by simp_all
  from Cons.prems(2) s have "n = get_run_index_prefixed_path r ''trained.model''" by simp
  with 1 have "n = get_run_index_prefixed_path (fst s1) ''trained.model''"
    by (simp add: s1 prefixed_path_cong [of r1 r])
  from Cons.IH [OF rest this] s1 1
  have 2: "path (fst s') = path r" "state (fst s') = state r"
    "run_writes (path r) (state r) w1 (snd (snd s'))"
    by simp_all
  from run_writes_trans [OF 1(3) 2(3)] 2 s show ?case by simp
qed

lemma run_callbacks_run:
  assumes "run_callbacks (get_run_index_prefixed_path r ''trained.model'') bs (r, g, w) = Inr s'"
  shows "path (fst s') = path r \<and> state (fst s') = state r
           \<and> run_writes (path r) (state r) w (snd (snd s'))"
  using run_callbacks_run_aux [OF assms] by simp

lemma make_optimizer_run:
  "make_optimizer r td = Inr r' \<Longrightarrow> path r' = path r \<and> state r' = state r"
  by (auto simp: make_optimizer_def bind_eq_Inr split: option.splits if_splits)

lemma train_Inr:
  assumes "train ext r td vd tg vg w = Inr rw"
  shows "\<exists>bs s. run_callbacks (get_run_index_prefixed_path r ''trained.model'') bs (r, tg, w) = Inr s
           \<and> rw = (fst s, snd (snd s))"
  using assms
  by (auto simp: train_def Let_def bind_eq_Inr split: option.splits)

lemma train_run:
  assumes "train ext r td vd tg vg w = Inr (r', w')"
  shows "path r' = path r \<and> state r' = state r \<and> run_writes (path r) (state r) w w'"
proof -
  from train_Inr [OF assms] obtain bs s where
    cb: "run_callbacks (get_run_index_prefixed_path r ''trained.model'') bs (r, tg, w) = Inr s"
    and rw: "(r', w') = (fst s, snd (snd s))"
    by blast
  from run_callbacks_run [OF cb] rw show ?thesis by simp
qed

lemma execute_run:
  assumes "execute ext r rd w = Inr (r', w')"
  shows "path r' = path r \<and> state r' = state r \<and> run_writes (path r) (state r) w w'"
proof -
  let ?w1 = "write_file (get_run_index_prefixed_path r ''run_desciption.json'') (JsonFile rd) w"
  from assms obtain dd r1 md r2 w2 td vd tg vg r3 where
    fd: "fetch_data ?w1 r dd = Inr r1"
    and fm: "fetch_model ext r1 md ?w1 = Inr (r2, w2)"
    and mo: "make_optimizer r2 td = Inr r3"
    and tr: "train ext r3 td vd tg vg w2 = Inr (r', w')"
    by (auto simp: execute_def Let_def bind_eq_Inr split: prod.splits)
  have w1: "run_writes (path r) (state r) w ?w1"
    by (rule run_writes_write) (simp add: prefixed_path_defs)
  from fetch_data_run [OF fd] have 1: "path r1 = path r" "state r1 = state r" by simp_all
  from fetch_model_run [OF fm] 1
  have 2: "path r2 = path r" "state r2 = state r" "run_writes (path r) (state r) ?w1 w2"
    by simp_all
  from make_optimizer_run [OF mo] 2 have 3: "path r3 = path r" "state r3 = state r" by simp_all
  from train_run [OF tr] 3
  have 4: "path r' = path r" "state r' = state r" "run_writes (path r) (state r) w2 w'"
    by simp_all
  from run_writes_trans [OF run_writes_trans [OF w1 2(3)] 4(3)]
  have "run_writes (path r) (state r) w w'" .
  with 4 show ?thesis by simp
qed

section \<open>Run: the state record during execute\<close>

lemma state_records_run_write:
  "list_all (run_write p st) ws \<Longrightarrow> set (state_records ws) \<subseteq> {st}"
  by (induction ws rule: state_records.induct) auto

text \<open>
  C3 (amended). When \<^verbatim>\<open>execute\<close> returns, the state record of the run is the one it
  was called with: the status is unchanged (\<open>running\<close> for a run that
  \<^verbatim>\<open>Run.__init__\<close> has just set up), and every state record that was written during
  the call is that same record.
\<close>

theorem execute_keeps_state:
  assumes "execute ext r run_description w = Inr (r', w')"
  shows "state r' = state r \<and> get_status r' = get_status r
           \<and> set (state_records (new_writes w w')) \<subseteq> {state r}"
proof -
  from execute_run [OF assms]
  have st: "state r' = state r" and ws: "run_writes (path r) (state r) w w'"
    by simp_all
  from ws have "list_all (run_write (path r) (state r)) (new_writes w w')"
    by (simp add: run_writes_def)
  from state_records_run_write [OF this] st show ?thesis
    by (simp add: get_status_def)
qed

text \<open>The theorem at the first run of the sample directory.\<close>

theorem execute_keeps_state_witness:
  "\<exists>r' w'. execute sample_collaborators sample_start (sample_description build_new_model)
              (fresh_directory build_new_model) = Inr (r', w')
      \<and> state r' = \<lparr>run_index = 0, status = ''running''\<rparr>
      \<and> set (state_records (new_writes (fresh_directory build_new_model) w'))
            \<subseteq> {\<lparr>run_index = 0, status = ''running''\<rparr>}"
proof -
  have "\<not> isl (execute sample_collaborators sample_start (sample_description build_new_model)
              (fresh_directory build_new_model))"
    by code_simp
  then obtain r' w' where
    run: "execute sample_collaborators sample_start (sample_description build_new_model)
              (fresh_directory build_new_model) = Inr (r', w')"
    by (cases "execute sample_collaborators sample_start (sample_description build_new_model)
              (fresh_directory build_new_model)") auto
  from execute_keeps_state [OF run] run show ?thesis
    by (auto simp: sample_start_def new_run_def)
qed

text \<open>
  As stated the claim fails: when the training loop of the sample run has completed, the
  status in memory and the status in the state file are \<open>running\<close>, not
  \<open>completed\<close>.
\<close>

theorem status_stays_running:
  "status_after (Run_init sample_collaborators (fresh_directory build_new_model) ''/runs/demo'')
     = Inr ''running''
   \<and> persisted_status_after
        (Run_init sample_collaborators (fresh_directory build_new_model) ''/runs/demo'')
     = Inr ''running''"
  by code_simp

section \<open>Run: artifact names\<close>




end
